theory Spec2Isabelle
  imports Complex_Main "HOL-Library.Word"
begin

section \<open>String primitives of the host language\<close>

text \<open>
  The report text and its lines are JavaScript strings. They are modelled as
  \<^typ>\<open>string\<close>: one \<^typ>\<open>char\<close> per code unit, for the code units up to 0xFF.
  Each function below is the string method of the same name, for the arguments the
  component passes to it.
\<close>

definition startsWith :: "string \<Rightarrow> string \<Rightarrow> bool" where
  "startsWith s p = (take (length p) s = p)"

fun includes_str :: "string \<Rightarrow> string \<Rightarrow> bool" where
  "includes_str [] p = (p = [])"
| "includes_str (c # cs) p = (startsWith (c # cs) p \<or> includes_str cs p)"

text \<open>
  \<open>String.prototype.trim\<close> removes white space and line terminators from both ends:
  TAB, LF, VT, FF, CR, SP and NBSP are the ones below 0x100.
\<close>

definition is_space :: "char \<Rightarrow> bool" where
  "is_space c = (c = CHR 0x09 \<or> c = CHR 0x0A \<or> c = CHR 0x0B \<or> c = CHR 0x0C
     \<or> c = CHR 0x0D \<or> c = CHR 0x20 \<or> c = CHR 0xA0)"

definition trim :: "string \<Rightarrow> string" where
  "trim s = rev (dropWhile is_space (rev (dropWhile is_space s)))"

text \<open>\<open>text.split('\n')\<close>: the pieces between the separators, empty ones included.\<close>

fun split_on :: "char \<Rightarrow> string \<Rightarrow> string list" where
  "split_on d [] = [[]]"
| "split_on d (c # cs) =
     (if c = d then [] # split_on d cs
      else (case split_on d cs of
              [] \<Rightarrow> [[c]]
            | l # ls \<Rightarrow> (c # l) # ls))"

text \<open>\<open>s.replace(p, '')\<close> with a string pattern: the first occurrence of \<open>p\<close> goes.\<close>

fun remove_first :: "string \<Rightarrow> string \<Rightarrow> string" where
  "remove_first p [] = []"
| "remove_first p (c # cs) =
     (if startsWith (c # cs) p then drop (length p) (c # cs)
      else c # remove_first p cs)"

text \<open>
  \<open>s.replace(/a|b/g, '')\<close> for literal alternatives: the subject is scanned from the
  left; at each position the alternatives are tried in their order, a match is
  deleted and the scan goes on behind it, otherwise the character is kept.
\<close>

fun match_alt :: "string list \<Rightarrow> string \<Rightarrow> string option" where
  "match_alt [] s = None"
| "match_alt (p # ps) s = (if p \<noteq> [] \<and> startsWith s p then Some p else match_alt ps s)"

function remove_all :: "string list \<Rightarrow> string \<Rightarrow> string" where
  "remove_all ps [] = []"
| "remove_all ps (c # cs) =
     (case match_alt ps (c # cs) of
        Some p \<Rightarrow> remove_all ps (drop (length p) (c # cs))
      | None \<Rightarrow> c # remove_all ps cs)"
  by pat_completeness auto
termination
proof (relation "measure (\<lambda>(ps, s). length s)")
  show "wf (measure (\<lambda>(ps :: string list, s :: string). length s))"
    by simp
next
  fix ps :: "string list" and c :: char and cs :: string and p :: string
  assume m: "match_alt ps (c # cs) = Some p"
  have "match_alt ps s = Some p \<Longrightarrow> p \<noteq> []" for s
    by (induction ps) (auto split: if_splits)
  with m have "p \<noteq> []" by blast
  then show "((ps, drop (length p) (c # cs)), (ps, c # cs)) \<in> measure (\<lambda>(ps, s). length s)"
    by (cases p) auto
next
  fix ps :: "string list" and c :: char and cs :: string
  show "((ps, cs), (ps, c # cs)) \<in> measure (\<lambda>(ps, s). length s)"
    by simp
qed

text \<open>
  \<open>line.split(/(\[.*?\])/g)\<close>. The pattern matches an opening bracket, the shortest run of
  characters other than line terminators, and a closing bracket: at an opening bracket
  it matches up to the first closing bracket behind it, unless a line terminator
  stands in between. \<open>bracket_match\<close> takes the text behind an opening bracket and
  returns the text up to the closing bracket and the text behind it. The split keeps
  the captured matches and the (possibly empty) pieces around them.
\<close>

definition line_terminator :: "char \<Rightarrow> bool" where
  "line_terminator c = (c = CHR 0x0A \<or> c = CHR 0x0D)"

definition bracket_match :: "string \<Rightarrow> (string \<times> string) option" where
  "bracket_match cs =
     (let body = takeWhile (\<lambda>c. c \<noteq> CHR '']'') cs;
          rest = dropWhile (\<lambda>c. c \<noteq> CHR '']'') cs
      in if rest = [] \<or> list_ex line_terminator body then None
         else Some (body, tl rest))"

function split_brackets :: "string \<Rightarrow> string \<Rightarrow> string list" where
  "split_brackets acc [] = [rev acc]"
| "split_brackets acc (c # cs) =
     (if c = CHR ''['' then
        (case bracket_match cs of
           Some (body, rest) \<Rightarrow>
             rev acc # (CHR ''['' # body @ '']'') # split_brackets [] rest
         | None \<Rightarrow> split_brackets (c # acc) cs)
      else split_brackets (c # acc) cs)"
  by pat_completeness auto
termination
proof (relation "measure (\<lambda>(acc, s). length s)")
  show "wf (measure (\<lambda>(acc :: string, s :: string). length s))"
    by simp
next
  fix acc :: string and c :: char and cs body rest :: string and x :: "string \<times> string"
  assume "bracket_match cs = Some x" and "(body, rest) = x"
  then have "rest = tl (dropWhile (\<lambda>c. c \<noteq> CHR '']'') cs)"
    by (auto simp: bracket_match_def Let_def split: if_splits)
  moreover have "length (dropWhile (\<lambda>c. c \<noteq> CHR '']'') cs) \<le> length cs"
    by (rule length_dropWhile_le)
  ultimately show "(([], rest), (acc, c # cs)) \<in> measure (\<lambda>(acc, s). length s)"
    by simp
next
  fix acc :: string and c :: char and cs :: string
  show "((c # acc, cs), (acc, c # cs)) \<in> measure (\<lambda>(acc, s). length s)"
    by simp
next
  fix acc :: string and c :: char and cs :: string
  show "((c # acc, cs), (acc, c # cs)) \<in> measure (\<lambda>(acc, s). length s)"
    by simp
qed

section \<open>The clinical report renderer\<close>

text \<open>
  \<open>renderClinicalReport\<close> of \<open>VitalScan.tsx\<close> maps every line of the interpretation
  text to one element or to \<open>null\<close>. The elements are modelled by their kind and by the
  text they show; the status banner keeps the class string the code selects.
\<close>

datatype metric_kind = HR | BP | HRV

datatype segment = MetricTag metric_kind string | PlainText string

datatype block =
    StatusBanner string string
  | FindingLine "segment list"
  | VerdictBlock string
  | Heading string
  | PlainLine string

definition positive_class :: string where
  "positive_class = ''bg-emerald-50 text-emerald-700 border-emerald-200''"

definition negative_class :: string where
  "negative_class = ''bg-rose-50 text-rose-700 border-rose-200''"

definition severityClass :: "string \<Rightarrow> string" where
  "severityClass color = (if color = positive_class then ''positive'' else ''negative'')"

definition status_of :: "string \<Rightarrow> string" where
  "status_of line = trim (remove_all [''###'', ''REPORT_STATUS:''] line)"

definition color_of :: "string \<Rightarrow> string" where
  "color_of status =
     (if includes_str status ''OPTIMAL'' \<or> includes_str status ''STABLE''
      then positive_class else negative_class)"

definition render_part :: "string \<Rightarrow> segment" where
  "render_part part =
     (if startsWith part ''[BPM:''
        then MetricTag HR (remove_first '']'' (remove_first ''[BPM:'' part))
      else if startsWith part ''[BP:''
        then MetricTag BP (remove_first '']'' (remove_first ''[BP:'' part))
      else if startsWith part ''[HRV:''
        then MetricTag HRV (remove_first '']'' (remove_first ''[HRV:'' part))
      else PlainText (filter (\<lambda>c. c \<noteq> CHR ''*'') part))"

definition has_metric_token :: "string \<Rightarrow> bool" where
  "has_metric_token line =
     (includes_str line ''[BPM:'' \<or> includes_str line ''[BP:'' \<or> includes_str line ''[HRV:'')"

definition render_line :: "string \<Rightarrow> block option" where
  "render_line line =
     (if startsWith line ''###'' then
        Some (StatusBanner (status_of line) (color_of (status_of line)))
      else if has_metric_token line then
        Some (FindingLine (map render_part (split_brackets [] line)))
      else if startsWith line ''**AI Verdict:**'' then
        Some (VerdictBlock (trim (remove_first ''**AI Verdict:**'' line)))
      else if startsWith line ''**'' then
        Some (Heading (remove_all [''**''] line))
      else if trim line \<noteq> [] then
        Some (PlainLine (filter (\<lambda>c. c \<noteq> CHR ''*'') line))
      else None)"

text \<open>
  The component returns \<open>null\<close> for the empty text, and otherwise the array of the
  lines' elements, \<open>null\<close> entries included. \<open>blocks\<close> are the elements shown: the
  entries that are not \<open>null\<close>, in the array's order.
\<close>

definition renderClinicalReport :: "string \<Rightarrow> block option list option" where
  "renderClinicalReport text =
     (if text = [] then None else Some (map render_line (split_on CHR 0x0A text)))"

definition blocks :: "string \<Rightarrow> block list" where
  "blocks text =
     (case renderClinicalReport text of
        None \<Rightarrow> []
      | Some children \<Rightarrow> List.map_filter (\<lambda>b. b) children)"

definition blank :: "string \<Rightarrow> bool" where
  "blank line = (trim line = [])"

section \<open>Numbers\<close>

text \<open>
  The numbers of a parsed JSON body are finite IEEE doubles; they are modelled by the
  reals they denote. \<open>Math.round\<close> is exact on them: the nearest integer, a tie going
  up.
\<close>

definition js_round :: "real \<Rightarrow> int" where
  "js_round x = \<lfloor>x + 1 / 2\<rfloor>"

text \<open>
  A number inside a template literal is converted with \<open>Number::toString\<close>. An integer of
  magnitude up to \<open>2^53\<close> is printed as its decimal digits, with a minus sign when
  negative. How the host prints the other values (fractions, exponent notation) is
  the parameter \<open>fmt\<close>.
\<close>

definition digit_char :: "nat \<Rightarrow> char" where
  "digit_char n = ''0123456789'' ! (n mod 10)"

function nat_str :: "nat \<Rightarrow> string" where
  "nat_str n = (if n < 10 then [digit_char n] else nat_str (n div 10) @ [digit_char n])"
  by pat_completeness auto
termination
  by (relation "measure (\<lambda>n. n)") auto

definition int_str :: "int \<Rightarrow> string" where
  "int_str i = (if i < 0 then CHR ''-'' # nat_str (nat (- i)) else nat_str (nat i))"

definition number_str :: "(real \<Rightarrow> string) \<Rightarrow> real \<Rightarrow> string" where
  "number_str fmt x =
     (if x = of_int \<lfloor>x\<rfloor> \<and> \<bar>x\<bar> \<le> 9007199254740992 then int_str \<lfloor>x\<rfloor> else fmt x)"

section \<open>Vitals records\<close>

text \<open>
  Modelled from the spec: the type of the value \<open>localServices.analyzeVideo\<close> resolves
  with (\<open>localServices\<close> is not among the sources). The spec describes a JSON object of
  numbers, in which any field may be missing and heart rate and blood pressure may be
  named in snake case or in camel case. A missing property (\<open>undefined\<close>) is \<open>None\<close>.
\<close>

record 'a pressure =
  systolic :: 'a
  diastolic :: 'a

record rppg_data =
  heart_rate :: "real option"
  heartRate :: "real option"
  hrv :: "real option"
  blood_pressure :: "real option pressure option"
  bloodPressure :: "real option pressure option"
  stress_index :: "real option"

datatype stress = Normal | High

text \<open>The object literal \<open>scanResult\<close> of \<open>processRecording\<close>.\<close>

record VitalScanResult =
  heartRate :: int
  hrv :: int
  bloodPressure :: "int pressure"
  stressLevel :: stress
  timestamp :: string
  aiInterpretation :: string

text \<open>
  \<open>v || d\<close> on an optional number: \<open>d\<close> when \<open>v\<close> is \<open>undefined\<close> or \<open>0\<close>, the two
  falsy values of the type. \<open>bp?.systolic\<close> is \<open>undefined\<close> when \<open>bp\<close> is.
\<close>

definition or_else :: "real option \<Rightarrow> real \<Rightarrow> real" where
  "or_else v d = (case v of None \<Rightarrow> d | Some x \<Rightarrow> if x = 0 then d else x)"

definition opt_systolic :: "real option pressure option \<Rightarrow> real option" where
  "opt_systolic bp = (case bp of None \<Rightarrow> None | Some p \<Rightarrow> systolic p)"

definition opt_diastolic :: "real option pressure option \<Rightarrow> real option" where
  "opt_diastolic bp = (case bp of None \<Rightarrow> None | Some p \<Rightarrow> diastolic p)"

section \<open>Interpretation under a deadline\<close>

text \<open>
  \<open>geminiService.interpretVitals\<close> posts a prompt and returns \<open>data.response\<close>; a failed
  fetch, a body that is not JSON and a reply without \<open>success\<close> all end in the same
  rejection. What it returns depends on the backend's reply only, which is the input
  here; \<open>Inl\<close> is a rejection with its message.
\<close>

datatype backend_reply = NoReply | Reply bool string

definition interpretVitals :: "backend_reply \<Rightarrow> string + string" where
  "interpretVitals reply =
     (case reply of
        NoReply \<Rightarrow> Inl ''Failed to interpret vitals''
      | Reply success response \<Rightarrow>
          if success then Inr response else Inl ''Failed to interpret vitals'')"

text \<open>
  \<open>Promise.race\<close> of the call and a timer that rejects after 8000 ms. The call settles
  some milliseconds after the race began, or never. The promise that settles first
  decides; when both settle in the same millisecond the event loop decides, which is
  the input \<open>remote_first\<close>.
\<close>

datatype ai_call = Settles nat backend_reply | NeverSettles

definition deadline_ms :: nat where
  "deadline_ms = 8000"

definition race :: "bool \<Rightarrow> ai_call \<Rightarrow> string + string" where
  "race remote_first call =
     (case call of
        NeverSettles \<Rightarrow> Inl ''AI Timeout''
      | Settles t reply \<Rightarrow>
          if t < deadline_ms \<or> (t = deadline_ms \<and> remote_first)
          then interpretVitals reply else Inl ''AI Timeout'')"

definition report_status :: "int \<Rightarrow> string" where
  "report_status hr = (if 100 < hr then ''ELEVATED'' else ''STABLE'')"

definition bpm_token :: "(real \<Rightarrow> string) \<Rightarrow> int \<Rightarrow> string" where
  "bpm_token fmt hr = ''[BPM: '' @ number_str fmt (of_int hr) @ '']''"

definition bp_token :: "(real \<Rightarrow> string) \<Rightarrow> real option pressure option \<Rightarrow> string" where
  "bp_token fmt bp =
     ''[BP: '' @ number_str fmt (or_else (opt_systolic bp) 120) @ ''/''
       @ number_str fmt (or_else (opt_diastolic bp) 80) @ '']''"

text \<open>The template of the \<open>catch\<close> branch, for the heart rate \<open>x\<close> of the response.\<close>

definition fallback_text :: "(real \<Rightarrow> string) \<Rightarrow> rppg_data \<Rightarrow> real \<Rightarrow> string" where
  "fallback_text fmt rppgData x =
     (let hr = js_round x in
      ''### REPORT_STATUS: '' @ report_status hr @ [CHR 0x0A, CHR 0x0A]
      @ ''**Summary:** Signals processed via local engine fallback.'' @ [CHR 0x0A, CHR 0x0A]
      @ ''**Clinical Findings:**'' @ [CHR 0x0A]
      @ ''* '' @ bpm_token fmt hr @ '' - Normal rhythm detected.'' @ [CHR 0x0A]
      @ ''* '' @ bp_token fmt (blood_pressure rppgData) @ '' - Estimated values.''
      @ [CHR 0x0A, CHR 0x0A]
      @ ''**AI Verdict:** Data captured and stored in local history.'')"

definition ai_text :: "(real \<Rightarrow> string) \<Rightarrow> bool \<Rightarrow> ai_call \<Rightarrow> rppg_data \<Rightarrow> real \<Rightarrow> string" where
  "ai_text fmt remote_first call rppgData x =
     (case race remote_first call of
        Inr aiText \<Rightarrow> aiText
      | Inl e \<Rightarrow> fallback_text fmt rppgData x)"

definition scan_result :: "rppg_data \<Rightarrow> real \<Rightarrow> string \<Rightarrow> string \<Rightarrow> VitalScanResult" where
  "scan_result rppgData x now_iso aiText =
     \<lparr>heartRate = js_round x,
      hrv = js_round (or_else (rppg_data.hrv rppgData) 45),
      bloodPressure =
        \<lparr>systolic = js_round (or_else (opt_systolic (blood_pressure rppgData)) 120),
         diastolic = js_round (or_else (opt_diastolic (blood_pressure rppgData)) 80)\<rparr>,
      stressLevel = (if 50 < or_else (stress_index rppgData) 0 then High else Normal),
      timestamp = now_iso,
      aiInterpretation = aiText\<rparr>"

section \<open>The scan component\<close>

text \<open>
  \<open>VitalScan\<close> is a function component. Each render binds the current state to
  constants (\<open>isRecording\<close>, \<open>isProcessing\<close>, \<open>useProxy\<close>, and the property
  \<open>simulationMode\<close>) and creates the functions \<open>processRecording\<close>, \<open>stopRecording\<close> and
  \<open>startRecording\<close> anew; a function sees the constants of the render that created it,
  also when it runs later from a timer or a recorder event. A \<open>scope\<close> holds these
  constants, and every function of the component takes the scope it was created in.
\<close>

record scope =
  simulationMode :: bool
  isRecording :: bool
  isProcessing :: bool
  useProxy :: bool

type_synonym blob = "8 word list"

datatype storage = Local | Cloud

text \<open>The callback of \<open>setInterval\<close> keeps \<open>startTime\<close> and the scope of its creation.\<close>

record interval =
  startTime :: int
  bound :: scope

text \<open>
  The recorder \<open>startRecording\<close> creates: its type, whether its state is other than
  \<open>inactive\<close>, and the scope of its \<open>onstop\<close> handler.
\<close>

record recorder =
  mimeType :: string
  active :: bool
  owner :: scope

text \<open>
  What persists between renders: the values behind the state hooks, the references
  (\<open>chunksRef\<close>, \<open>timerRef\<close>, \<open>mediaRecorderRef\<close>, \<open>isMounted\<close>), whether the video
  element has a stream, and the intervals registered with the window.
\<close>

record component =
  recording :: bool
  recordingTime :: int
  processing :: bool
  result :: "VitalScanResult option"
  error :: "string option"
  proxy :: bool
  storageStatus :: "storage option"
  chunksRef :: "blob list"
  timerRef :: "nat option"
  mediaRecorderRef :: "recorder option"
  isMounted :: bool
  srcObject :: bool
  intervals :: "(nat \<times> interval) list"
  next_interval :: nat

definition render :: "bool \<Rightarrow> component \<Rightarrow> scope" where
  "render sim s =
     \<lparr>simulationMode = sim, isRecording = recording s, isProcessing = processing s,
      useProxy = proxy s\<rparr>"

text \<open>
  What the world outside the component answers during one handler: the extraction
  service (\<open>Inl\<close> is a rejection with its message, \<open>Inr None\<close> a falsy value), the
  interpretation call, the storage call, the clock, the host's number formatting, and
  the recording engine.
\<close>

record services =
  analyzeVideo :: "string + rppg_data option"
  remote_call :: ai_call
  remote_first :: bool
  saveScanResult :: "string + bool"
  toISOString :: string
  number_fmt :: "real \<Rightarrow> string"
  vp8_supported :: bool
  recorder_fails :: bool
  final_chunk :: blob

datatype request =
    AnalyzeVideo blob bool "bool option"
  | InterpretVitals rppg_data
  | SaveScanResult VitalScanResult bool

subsection \<open>processRecording\<close>

definition no_data_message :: string where
  "no_data_message = ''No video data captured. Please hold still.''"

definition no_pulse_message :: string where
  "no_pulse_message = ''The diagnostic engine could not extract a pulse from this video.''"

definition network_message :: string where
  "network_message =
     ''Network Error: Cannot connect to rPPG server on Port 8001. Check CORS or use Simulation Mode.''"

text \<open>The first statement of the \<open>try\<close> block: the clip is assembled and sent.\<close>

definition extraction ::
  "scope \<Rightarrow> services \<Rightarrow> blob list \<Rightarrow> (string + rppg_data option) \<times> request list" where
  "extraction c e capturedChunks =
     (if simulationMode c then (analyzeVideo e, [AnalyzeVideo [] True None])
      else let blob = concat capturedChunks in
        if length blob = 0 then (Inl no_data_message, [])
        else (analyzeVideo e, [AnalyzeVideo blob False (Some (useProxy c))]))"

text \<open>
  The \<open>try\<close> block up to the object literal: \<open>Inl\<close> is the message of what was thrown,
  \<open>Inr\<close> the scan result; with it the requests sent so far.
\<close>

definition analysis ::
  "scope \<Rightarrow> services \<Rightarrow> blob list \<Rightarrow> (string + VitalScanResult) \<times> request list" where
  "analysis c e capturedChunks =
     (case extraction c e capturedChunks of
        (Inl msg, reqs) \<Rightarrow> (Inl msg, reqs)
      | (Inr None, reqs) \<Rightarrow> (Inl no_pulse_message, reqs)
      | (Inr (Some rppgData), reqs) \<Rightarrow>
          (case heart_rate rppgData of
             None \<Rightarrow> (Inl no_pulse_message, reqs)
           | Some x \<Rightarrow>
               (Inr (scan_result rppgData x (toISOString e)
                      (ai_text (number_fmt e) (remote_first e) (remote_call e) rppgData x)),
                reqs @ [InterpretVitals rppgData])))"

definition user_message :: "string \<Rightarrow> string" where
  "user_message msg = (if includes_str msg ''Failed to fetch'' then network_message else msg)"

definition failed :: "string \<Rightarrow> component \<Rightarrow> component" where
  "failed msg s = (if isMounted s then s\<lparr>error := Some (user_message msg)\<rparr> else s)"

definition settled :: "component \<Rightarrow> component" where
  "settled s = (if isMounted s then s\<lparr>processing := False\<rparr> else s)"

text \<open>
  One call of the asynchronous \<open>processRecording\<close>, taken as a whole: the state the
  component is left in when the returned promise has settled, and the requests sent on
  the way. \<open>isMounted\<close> is read as it stands in the state; \<open>failed\<close> is the \<open>catch\<close>
  block and \<open>settled\<close> the \<open>finally\<close> block.
\<close>

definition processRecording ::
  "scope \<Rightarrow> services \<Rightarrow> blob list \<Rightarrow> component \<Rightarrow> component \<times> request list" where
  "processRecording c e capturedChunks s =
     (if isProcessing c then (s, [])
      else let s1 = s\<lparr>processing := True, error := None\<rparr> in
        (case analysis c e capturedChunks of
           (Inl msg, reqs) \<Rightarrow> (settled (failed msg s1), reqs)
         | (Inr scanResult, reqs) \<Rightarrow>
             if isMounted s1 then
               (let s2 = s1\<lparr>result := Some scanResult\<rparr>;
                    reqs2 = reqs @ [SaveScanResult scanResult (simulationMode c)]
                in case saveScanResult e of
                     Inl msg \<Rightarrow> (settled (failed msg s2), reqs2)
                   | Inr saved \<Rightarrow>
                       (settled (s2\<lparr>storageStatus :=
                          Some (if saved then (if simulationMode c then Local else Cloud)
                                else Local)\<rparr>), reqs2))
             else (settled s1, reqs)))"

subsection \<open>stopRecording, startRecording and the timer\<close>

definition clearInterval :: "nat \<Rightarrow> (nat \<times> interval) list \<Rightarrow> (nat \<times> interval) list" where
  "clearInterval t ivs = filter (\<lambda>(k, iv). k \<noteq> t) ivs"

definition ondataavailable :: "blob \<Rightarrow> component \<Rightarrow> component" where
  "ondataavailable data s = (if 0 < length data then s\<lparr>chunksRef := chunksRef s @ [data]\<rparr> else s)"

text \<open>
  \<open>recorder.stop()\<close>: the recorder becomes inactive, hands over the data it still holds
  and fires \<open>stop\<close>, whose handler calls the \<open>processRecording\<close> of the recorder's scope.
\<close>

definition recorder_stop ::
  "recorder \<Rightarrow> services \<Rightarrow> component \<Rightarrow> component \<times> request list" where
  "recorder_stop r e s =
     (let s1 = ondataavailable (final_chunk e) (s\<lparr>mediaRecorderRef := Some (r\<lparr>active := False\<rparr>)\<rparr>)
      in processRecording (owner r) e (chunksRef s1) s1)"

definition stopRecording :: "scope \<Rightarrow> services \<Rightarrow> component \<Rightarrow> component \<times> request list" where
  "stopRecording c e s =
     (if \<not> isRecording c then (s, [])
      else let s1 = s\<lparr>recording := False\<rparr>;
               s2 = (case timerRef s1 of
                       None \<Rightarrow> s1
                     | Some t \<Rightarrow>
                         if t = 0 then s1
                         else s1\<lparr>intervals := clearInterval t (intervals s1), timerRef := None\<rparr>)
           in (case mediaRecorderRef s2 of
                 None \<Rightarrow> processRecording c e (chunksRef s2) s2
               | Some r \<Rightarrow>
                   if active r then recorder_stop r e s2
                   else processRecording c e (chunksRef s2) s2))"

definition startRecording :: "scope \<Rightarrow> services \<Rightarrow> int \<Rightarrow> component \<Rightarrow> component" where
  "startRecording c e now s =
     (if isRecording c \<or> isProcessing c then s
      else let s1 = s\<lparr>error := None, result := None, chunksRef := [], recordingTime := 0,
                       recording := True\<rparr>;
               t = next_interval s1;
               s2 = s1\<lparr>intervals := (t, \<lparr>startTime = now, bound = c\<rparr>) # intervals s1,
                       next_interval := t + 1, timerRef := Some t\<rparr>
           in if \<not> simulationMode c \<and> srcObject s2 then
                (if recorder_fails e then
                   s2\<lparr>error := Some ''Recording engine failed. Please try Simulation Mode.'',
                      recording := False,
                      intervals := (if t = 0 then intervals s2 else clearInterval t (intervals s2))\<rparr>
                 else
                   s2\<lparr>mediaRecorderRef := Some
                      \<lparr>mimeType = (if vp8_supported e then ''video/webm;codecs=vp8''
                                    else ''video/webm''),
                       active = True, owner = c\<rparr>\<rparr>)
              else s2)"

text \<open>
  The interval's callback, run at the time \<open>now\<close>, and the window running the callback
  of the interval \<open>t\<close> if it is still registered.
\<close>

definition tick :: "interval \<Rightarrow> services \<Rightarrow> int \<Rightarrow> component \<Rightarrow> component \<times> request list" where
  "tick iv e now s =
     (let elapsed = (now - startTime iv) div 1000;
          s1 = s\<lparr>recordingTime := elapsed\<rparr>
      in if 15 \<le> elapsed then stopRecording (bound iv) e s1 else (s1, []))"

definition interval_fires ::
  "nat \<Rightarrow> services \<Rightarrow> int \<Rightarrow> component \<Rightarrow> component \<times> request list" where
  "interval_fires t e now s =
     (case map_of (intervals s) t of
        None \<Rightarrow> (s, [])
      | Some iv \<Rightarrow> tick iv e now s)"

text \<open>The component after its first render, with the camera stream attached or not.\<close>

definition mounted :: "bool \<Rightarrow> component" where
  "mounted camera =
     \<lparr>recording = False, recordingTime = 0, processing = False, result = None,
      error = None, proxy = False, storageStatus = None, chunksRef = [],
      timerRef = None, mediaRecorderRef = None, isMounted = True, srcObject = camera,
      intervals = [], next_interval = 1\<rparr>"
section \<open>Example inputs\<close>

text \<open>
  A response in snake case with a fractional heart rate, zeros for heart-rate
  variability and systolic pressure and a stress index of 50; a response that names
  its fields in camel case only; and services around them.
\<close>

definition sample_response :: rppg_data where
  "sample_response =
     \<lparr>heart_rate = Some 72.4, heartRate = None, hrv = Some 0,
      blood_pressure = Some \<lparr>systolic = Some 0, diastolic = None\<rparr>,
      bloodPressure = None, stress_index = Some 50\<rparr>"

definition camel_response :: rppg_data where
  "camel_response =
     \<lparr>heart_rate = None, heartRate = Some 72, hrv = Some 48,
      blood_pressure = None,
      bloodPressure = Some \<lparr>systolic = Some 118, diastolic = Some 76\<rparr>,
      stress_index = Some 20\<rparr>"

definition sample_services :: services where
  "sample_services =
     \<lparr>analyzeVideo = Inr (Some sample_response), remote_call = NeverSettles,
      remote_first = False, saveScanResult = Inr True,
      toISOString = ''2024-01-01T00:00:00.000Z'', number_fmt = (\<lambda>x. []),
      vp8_supported = True, recorder_fails = False, final_chunk = []\<rparr>"

text \<open>A report with a status line, blank lines, a heading, a finding, a verdict and plain text.\<close>

definition sample_report :: string where
  "sample_report =
     ''### REPORT_STATUS: STABLE'' @ [CHR 0x0A, CHR 0x0A]
     @ ''**Summary:** ok'' @ [CHR 0x0A]
     @ ''  '' @ [CHR 0x0A]
     @ ''* [BPM: 72] - Normal rhythm'' @ [CHR 0x0A]
     @ ''**AI Verdict:** done'' @ [CHR 0x0A]
     @ ''plain *text*''"

section \<open>Facts about the primitives\<close>

lemma nat_str_small: "n < 10 \<Longrightarrow> nat_str n = [digit_char n]"
  by simp

lemma nat_str_large: "\<not> n < 10 \<Longrightarrow> nat_str n = nat_str (n div 10) @ [digit_char n]"
  by simp

declare nat_str.simps [simp del]

lemmas num_eval = nat_str_small nat_str_large digit_char_def int_str_def number_str_def

lemma startsWith_iff: "startsWith s p \<longleftrightarrow> (\<exists>b. s = p @ b)"
proof
  assume "startsWith s p"
  then have "s = p @ drop (length p) s"
    by (metis append_take_drop_id startsWith_def)
  then show "\<exists>b. s = p @ b" ..
next
  assume "\<exists>b. s = p @ b"
  then show "startsWith s p" by (auto simp: startsWith_def)
qed

lemma includes_str_start: "startsWith s p \<Longrightarrow> includes_str s p"
  by (cases s) (auto simp: startsWith_def)

lemma includes_str_append: "includes_str (a @ p @ b) p"
proof (induction a)
  case Nil
  have "startsWith (p @ b) p" by (auto simp: startsWith_iff)
  then show ?case by (simp add: includes_str_start)
next
  case (Cons c a)
  then show ?case by simp
qed

lemma includes_str_set: "includes_str s p \<Longrightarrow> set p \<subseteq> set s"
proof (induction s)
  case Nil
  then show ?case by simp
next
  case (Cons c s)
  show ?case
  proof (cases "startsWith (c # s) p")
    case True
    then obtain b where "c # s = p @ b" by (auto simp: startsWith_iff)
    then have "set (c # s) = set p \<union> set b" by (metis set_append)
    then show ?thesis by blast
  next
    case False
    with Cons show ?thesis by auto
  qed
qed

lemma no_fetch_in_no_pulse: "user_message no_pulse_message = no_pulse_message"
  by (simp add: user_message_def no_pulse_message_def startsWith_def)

lemma no_fetch_in_no_data: "user_message no_data_message = no_data_message"
  by (simp add: user_message_def no_data_message_def startsWith_def)

lemma processRecording_scan:
  assumes "\<not> isProcessing c" and "isMounted s" and "simulationMode c \<or> concat chunks \<noteq> []"
    and "analyzeVideo e = Inr (Some d)" and "heart_rate d = Some x"
  shows "result (fst (processRecording c e chunks s)) =
    Some (scan_result d x (toISOString e)
      (ai_text (number_fmt e) (remote_first e) (remote_call e) d x))"
  using assms
  by (auto simp: processRecording_def analysis_def extraction_def Let_def settled_def failed_def
      split: sum.splits prod.splits option.splits)
section \<open>The scan result\<close>

text \<open>
  C10. Whenever \<open>processRecording\<close> stores a scan result, its \<open>stressLevel\<close> is \<open>High\<close> if
  the stress index of the response, taken as 0 when it is missing, is greater than 50,
  and \<open>Normal\<close> otherwise. A stress index of exactly 50 and a missing one both give
  \<open>Normal\<close>.
\<close>

theorem stress_level_threshold:
  assumes "\<not> isProcessing c" and "isMounted s" and "simulationMode c \<or> concat chunks \<noteq> []"
    and "analyzeVideo e = Inr (Some d)" and "heart_rate d = Some x"
  shows "map_option stressLevel (result (fst (processRecording c e chunks s))) =
      Some (if 50 < (case stress_index d of None \<Rightarrow> 0 | Some v \<Rightarrow> v) then High else Normal)"
  by (simp add: processRecording_scan [OF assms] scan_result_def or_else_def split: option.splits)

theorem stress_level_threshold_witness:
  "map_option stressLevel
     (result (fst (processRecording (render True (mounted False)) sample_services []
        (mounted False))))
     = Some Normal
   \<and> map_option stressLevel
     (result (fst (processRecording (render True (mounted False))
        (sample_services\<lparr>analyzeVideo :=
           Inr (Some (sample_response\<lparr>stress_index := Some 50.5\<rparr>))\<rparr>)
        [] (mounted False))))
     = Some High
   \<and> map_option stressLevel
     (result (fst (processRecording (render True (mounted False))
        (sample_services\<lparr>analyzeVideo :=
           Inr (Some (sample_response\<lparr>stress_index := None\<rparr>))\<rparr>)
        [] (mounted False))))
     = Some Normal"
  using stress_level_threshold [of "render True (mounted False)" "mounted False" "[]"
      sample_services sample_response "72.4"]
    stress_level_threshold [of "render True (mounted False)" "mounted False" "[]"
      "sample_services\<lparr>analyzeVideo :=
         Inr (Some (sample_response\<lparr>stress_index := Some 50.5\<rparr>))\<rparr>"
      "sample_response\<lparr>stress_index := Some 50.5\<rparr>" "72.4"]
    stress_level_threshold [of "render True (mounted False)" "mounted False" "[]"
      "sample_services\<lparr>analyzeVideo :=
         Inr (Some (sample_response\<lparr>stress_index := None\<rparr>))\<rparr>"
      "sample_response\<lparr>stress_index := None\<rparr>" "72.4"]
  by (simp add: render_def mounted_def sample_services_def sample_response_def)
lemma processRecording_fst_cong:
  assumes "fst (analysis c e chunks) = fst (analysis c e' chunks)"
    and "saveScanResult e = saveScanResult e'"
  shows "fst (processRecording c e chunks s) = fst (processRecording c e' chunks s)"
proof (cases "analysis c e chunks")
  case (Pair r reqs)
  note left = this
  show ?thesis
  proof (cases "analysis c e' chunks")
    case (Pair r' reqs')
    with left assms(1) have "r' = r" by simp
    with left Pair assms(2) show ?thesis
      by (cases r) (simp_all add: processRecording_def Let_def split: sum.splits)
  qed
qed

lemma analysis_response:
  assumes "heart_rate d = heart_rate d'" and "scan_result d = scan_result d'"
    and "fallback_text (number_fmt e) d = fallback_text (number_fmt e) d'"
  shows "fst (analysis c (e\<lparr>analyzeVideo := Inr (Some d)\<rparr>) chunks) =
    fst (analysis c (e\<lparr>analyzeVideo := Inr (Some d')\<rparr>) chunks)"
  using assms
  by (simp add: analysis_def extraction_def Let_def ai_text_def split: option.splits sum.splits)

lemma processRecording_response:
  assumes "heart_rate d = heart_rate d'" and "scan_result d = scan_result d'"
    and "fallback_text (number_fmt e) d = fallback_text (number_fmt e) d'"
  shows "fst (processRecording c (e\<lparr>analyzeVideo := Inr (Some d)\<rparr>) chunks s) =
    fst (processRecording c (e\<lparr>analyzeVideo := Inr (Some d')\<rparr>) chunks s)"
  by (rule processRecording_fst_cong) (simp_all add: analysis_response [OF assms])

text \<open>
  C9. A field of the response that is present with the value 0 is treated as a missing
  one. In the scan result a heart-rate variability of 0 or none gives 45, a systolic
  pressure of 0 gives 120, a diastolic pressure of 0 gives 80, and a missing
  blood-pressure object gives 120/80; a stress index of 0 gives \<open>Normal\<close>, as a missing one
  does. The fallback report shows \<open>[BP: 120/80]\<close> for pressures of 0. For each of the
  four fields, \<open>processRecording\<close> leaves the component in the same state whether the
  field is 0 or missing.
\<close>

theorem zero_is_missing:
  "VitalScanResult.hrv (scan_result (d\<lparr>rppg_data.hrv := Some 0\<rparr>) x t a) = 45
   \<and> VitalScanResult.hrv (scan_result (d\<lparr>rppg_data.hrv := None\<rparr>) x t a) = 45
   \<and> bloodPressure (scan_result (d\<lparr>blood_pressure := None\<rparr>) x t a)
       = \<lparr>systolic = 120, diastolic = 80\<rparr>
   \<and> systolic (bloodPressure (scan_result (d\<lparr>blood_pressure := Some (p\<lparr>systolic := Some 0\<rparr>)\<rparr>) x t a)) = 120
   \<and> diastolic (bloodPressure (scan_result (d\<lparr>blood_pressure := Some (p\<lparr>diastolic := Some 0\<rparr>)\<rparr>) x t a)) = 80
   \<and> stressLevel (scan_result (d\<lparr>stress_index := Some 0\<rparr>) x t a) = Normal
   \<and> includes_str
        (fallback_text fmt (d\<lparr>blood_pressure := Some \<lparr>systolic = Some 0, diastolic = Some 0\<rparr>\<rparr>) x)
        ''[BP: 120/80]''
   \<and> fst (processRecording c (e\<lparr>analyzeVideo := Inr (Some (d\<lparr>rppg_data.hrv := Some 0\<rparr>))\<rparr>) chunks s)
     = fst (processRecording c (e\<lparr>analyzeVideo := Inr (Some (d\<lparr>rppg_data.hrv := None\<rparr>))\<rparr>) chunks s)
   \<and> fst (processRecording c (e\<lparr>analyzeVideo :=
            Inr (Some (d\<lparr>blood_pressure := Some (p\<lparr>systolic := Some 0\<rparr>)\<rparr>))\<rparr>) chunks s)
     = fst (processRecording c (e\<lparr>analyzeVideo :=
            Inr (Some (d\<lparr>blood_pressure := Some (p\<lparr>systolic := None\<rparr>)\<rparr>))\<rparr>) chunks s)
   \<and> fst (processRecording c (e\<lparr>analyzeVideo :=
            Inr (Some (d\<lparr>blood_pressure := Some (p\<lparr>diastolic := Some 0\<rparr>)\<rparr>))\<rparr>) chunks s)
     = fst (processRecording c (e\<lparr>analyzeVideo :=
            Inr (Some (d\<lparr>blood_pressure := Some (p\<lparr>diastolic := None\<rparr>)\<rparr>))\<rparr>) chunks s)
   \<and> fst (processRecording c (e\<lparr>analyzeVideo := Inr (Some (d\<lparr>stress_index := Some 0\<rparr>))\<rparr>) chunks s)
     = fst (processRecording c (e\<lparr>analyzeVideo := Inr (Some (d\<lparr>stress_index := None\<rparr>))\<rparr>) chunks s)"
proof -
  have token: "bp_token fmt (Some \<lparr>systolic = Some 0, diastolic = Some 0\<rparr>) = ''[BP: 120/80]''"
    by (simp add: bp_token_def or_else_def opt_systolic_def opt_diastolic_def num_eval)
  have shown: "includes_str
        (fallback_text fmt (d\<lparr>blood_pressure := Some \<lparr>systolic = Some 0, diastolic = Some 0\<rparr>\<rparr>) x)
        ''[BP: 120/80]''"
    unfolding fallback_text_def Let_def
    using includes_str_append [of "''### REPORT_STATUS: '' @ report_status (js_round x) @ [CHR 0x0A, CHR 0x0A]
      @ ''**Summary:** Signals processed via local engine fallback.'' @ [CHR 0x0A, CHR 0x0A]
      @ ''**Clinical Findings:**'' @ [CHR 0x0A]
      @ ''* '' @ bpm_token fmt (js_round x) @ '' - Normal rhythm detected.'' @ [CHR 0x0A]
      @ ''* ''" "''[BP: 120/80]''"]
    by (simp add: token)
  have eq: "fst (processRecording c (e\<lparr>analyzeVideo := Inr (Some d1)\<rparr>) chunks s) =
      fst (processRecording c (e\<lparr>analyzeVideo := Inr (Some d2)\<rparr>) chunks s)"
    if "heart_rate d1 = heart_rate d2" and "scan_result d1 = scan_result d2"
      and "fallback_text (number_fmt e) d1 = fallback_text (number_fmt e) d2" for d1 d2
    using that by (rule processRecording_response)
  show ?thesis
    apply (intro conjI)
              apply (simp add: scan_result_def or_else_def js_round_def)
             apply (simp add: scan_result_def or_else_def js_round_def)
            apply (simp add: scan_result_def or_else_def js_round_def opt_systolic_def
        opt_diastolic_def)
           apply (simp add: scan_result_def or_else_def js_round_def opt_systolic_def)
          apply (simp add: scan_result_def or_else_def js_round_def opt_diastolic_def)
         apply (simp add: scan_result_def or_else_def)
        apply (rule shown)
       apply (rule eq; simp add: scan_result_def fallback_text_def or_else_def fun_eq_iff)
      apply (rule eq; simp add: scan_result_def fallback_text_def bp_token_def or_else_def opt_systolic_def opt_diastolic_def fun_eq_iff)
     apply (rule eq; simp add: scan_result_def fallback_text_def bp_token_def or_else_def opt_systolic_def opt_diastolic_def fun_eq_iff)
    apply (rule eq; simp add: scan_result_def fallback_text_def or_else_def fun_eq_iff)
    done
qed


theorem zero_is_missing_witness:
  "VitalScanResult.hrv (scan_result sample_response 72.4 [] []) = 45
   \<and> systolic (bloodPressure (scan_result sample_response 72.4 [] [])) = 120
   \<and> fst (processRecording (render True (mounted False)) sample_services [] (mounted False))
     = fst (processRecording (render True (mounted False))
         (sample_services\<lparr>analyzeVideo := Inr (Some (sample_response\<lparr>rppg_data.hrv := None\<rparr>))\<rparr>)
         [] (mounted False))"
  using zero_is_missing [of sample_response "72.4" "[]" "[]"
      "\<lparr>systolic = Some 0, diastolic = None\<rparr>" "\<lambda>x. []" "render True (mounted False)"
      sample_services "[]" "mounted False"]
  by (simp add: sample_response_def sample_services_def)

section \<open>Failures of a session\<close>

lemma extraction_requests:
  "AnalyzeVideo b sim px \<in> set (snd (extraction c e chunks)) \<Longrightarrow> \<not> simulationMode c \<Longrightarrow> b \<noteq> []"
  by (auto simp: extraction_def Let_def split: if_splits)

lemma analysis_requests:
  "AnalyzeVideo b sim px \<in> set (snd (analysis c e chunks)) \<Longrightarrow>
   AnalyzeVideo b sim px \<in> set (snd (extraction c e chunks))"
  by (cases "extraction c e chunks")
    (auto simp: analysis_def split: sum.splits option.splits)

lemma processRecording_requests:
  "AnalyzeVideo b sim px \<in> set (snd (processRecording c e chunks s)) \<Longrightarrow>
   AnalyzeVideo b sim px \<in> set (snd (analysis c e chunks))"
  by (cases "analysis c e chunks")
    (auto simp: processRecording_def Let_def split: sum.splits if_splits)

text \<open>
  C5. In live mode \<open>processRecording\<close> never sends an empty clip to the extraction
  service. When the assembled clip has no bytes, the session (not already processing,
  component mounted) sends no request at all and ends with the error
  \<open>No video data captured. Please hold still.\<close>, its result untouched and processing
  over.
\<close>

theorem empty_clip_fails_before_extraction:
  assumes "\<not> simulationMode c"
  shows "AnalyzeVideo [] sim px \<notin> set (snd (processRecording c e chunks s))
    \<and> (concat chunks = [] \<and> \<not> isProcessing c \<and> isMounted s \<longrightarrow>
      processRecording c e chunks s =
        (s\<lparr>processing := False, error := Some no_data_message\<rparr>, []))"
proof
  show "AnalyzeVideo [] sim px \<notin> set (snd (processRecording c e chunks s))"
    using assms extraction_requests analysis_requests processRecording_requests by blast
  show "concat chunks = [] \<and> \<not> isProcessing c \<and> isMounted s \<longrightarrow>
      processRecording c e chunks s =
        (s\<lparr>processing := False, error := Some no_data_message\<rparr>, [])"
    using assms
    by (simp add: processRecording_def analysis_def extraction_def Let_def failed_def
        settled_def no_fetch_in_no_data)
qed

theorem empty_clip_fails_before_extraction_witness:
  "processRecording (render False (mounted True)) sample_services [[], []] (mounted True) =
     ((mounted True)\<lparr>processing := False, error := Some no_data_message\<rparr>, [])
   \<and> AnalyzeVideo [] False (Some False)
       \<notin> set (snd (processRecording (render False (mounted True)) sample_services [[7], []]
             (mounted True)))"
  using empty_clip_fails_before_extraction [of "render False (mounted True)" False "Some False"
      sample_services "[[], []]" "mounted True"]
    empty_clip_fails_before_extraction [of "render False (mounted True)" False "Some False"
      sample_services "[[7], []]" "mounted True"]
  by (simp add: render_def mounted_def)
lemma extraction_no_interpret: "InterpretVitals d \<notin> set (snd (extraction c e chunks))"
  by (auto simp: extraction_def Let_def split: if_splits)

lemma processRecording_no_pulse:
  assumes "\<not> isProcessing c" and "isMounted s" and "simulationMode c \<or> concat chunks \<noteq> []"
    and "analyzeVideo e = Inr resp"
    and "resp = None \<or> (\<exists>d. resp = Some d \<and> heart_rate d = None)"
  shows "processRecording c e chunks s =
    (s\<lparr>processing := False, error := Some no_pulse_message\<rparr>, snd (extraction c e chunks))"
  using assms
  by (auto simp: processRecording_def analysis_def extraction_def Let_def failed_def
      settled_def no_fetch_in_no_pulse)

lemma processRecording_interprets:
  assumes "\<not> isProcessing c" and "simulationMode c \<or> concat chunks \<noteq> []"
    and "analyzeVideo e = Inr (Some d)" and "heart_rate d = Some x"
  shows "InterpretVitals d \<in> set (snd (processRecording c e chunks s))"
  using assms
  by (auto simp: processRecording_def analysis_def extraction_def Let_def
      split: sum.splits)

text \<open>
  C1. The pulse guard of \<open>processRecording\<close> reads the snake-case field only. For a
  session that reaches the extraction service and gets a response (not already
  processing, component mounted): the interpretation request is sent exactly when the
  response is present and has \<open>heart_rate\<close>; and the session ends with the error
  \<open>The diagnostic engine could not extract a pulse from this video.\<close>, its result
  untouched and nothing requested but the extraction, exactly when the response is
  missing or has no \<open>heart_rate\<close>. The field \<open>heartRate\<close> plays no part: a response that
  carries its heart rate in camel case only is rejected, as the example after the
  theorem shows.
\<close>

theorem pulse_guard_reads_snake_case:
  assumes "\<not> isProcessing c" and "isMounted s" and "simulationMode c \<or> concat chunks \<noteq> []"
    and "analyzeVideo e = Inr resp"
  shows "((\<exists>d. InterpretVitals d \<in> set (snd (processRecording c e chunks s)))
        = (\<exists>d x. resp = Some d \<and> heart_rate d = Some x))
    \<and> ((processRecording c e chunks s =
          (s\<lparr>processing := False, error := Some no_pulse_message\<rparr>,
           snd (extraction c e chunks)))
        = (resp = None \<or> (\<exists>d. resp = Some d \<and> heart_rate d = None)))"
proof (cases "resp = None \<or> (\<exists>d. resp = Some d \<and> heart_rate d = None)")
  case True
  have failed: "processRecording c e chunks s =
      (s\<lparr>processing := False, error := Some no_pulse_message\<rparr>, snd (extraction c e chunks))"
    using assms True by (rule processRecording_no_pulse)
  have "\<not> (\<exists>d x. resp = Some d \<and> heart_rate d = Some x)"
    using True by auto
  with failed True show ?thesis
    by (simp add: extraction_no_interpret)
next
  case False
  then obtain d x where d: "resp = Some d" "heart_rate d = Some x"
    by (cases resp) auto
  have sent: "InterpretVitals d \<in> set (snd (processRecording c e chunks s))"
    using assms d by (auto intro: processRecording_interprets)
  then have "snd (processRecording c e chunks s) \<noteq> snd (extraction c e chunks)"
    using extraction_no_interpret by metis
  then have "processRecording c e chunks s \<noteq>
      (s\<lparr>processing := False, error := Some no_pulse_message\<rparr>, snd (extraction c e chunks))"
    by auto
  with sent d False show ?thesis by auto
qed

theorem pulse_guard_reads_snake_case_witness:
  "InterpretVitals sample_response
     \<in> set (snd (processRecording (render True (mounted False)) sample_services []
          (mounted False)))
   \<and> processRecording (render True (mounted False))
       (sample_services\<lparr>analyzeVideo := Inr (Some (sample_response\<lparr>heart_rate := None\<rparr>))\<rparr>)
       [] (mounted False)
     = ((mounted False)\<lparr>error := Some no_pulse_message\<rparr>, [AnalyzeVideo [] True None])"
  using pulse_guard_reads_snake_case [of "render True (mounted False)" "mounted False" "[]"
      sample_services "Some sample_response"]
    pulse_guard_reads_snake_case [of "render True (mounted False)" "mounted False" "[]"
      "sample_services\<lparr>analyzeVideo := Inr (Some (sample_response\<lparr>heart_rate := None\<rparr>))\<rparr>"
      "Some (sample_response\<lparr>heart_rate := None\<rparr>)"]
  by (simp add: render_def sample_services_def sample_response_def extraction_def mounted_def
      processRecording_def analysis_def failed_def settled_def no_fetch_in_no_pulse)

theorem camel_case_heart_rate_rejected:
  "rppg_data.heartRate camel_response = Some 72
   \<and> processRecording (render True (mounted False))
       (sample_services\<lparr>analyzeVideo := Inr (Some camel_response)\<rparr>) [] (mounted False)
     = ((mounted False)\<lparr>error := Some no_pulse_message\<rparr>, [AnalyzeVideo [] True None])"
  by (simp add: camel_response_def sample_services_def render_def mounted_def
      processRecording_def analysis_def extraction_def failed_def settled_def
      no_fetch_in_no_pulse)

section \<open>Interpretation and its fallback\<close>

lemma ai_text_cases:
  "ai_text fmt rf call d x =
     (case call of
        NeverSettles \<Rightarrow> fallback_text fmt d x
      | Settles t reply \<Rightarrow>
          (case reply of
             Reply True r \<Rightarrow>
               if t < 8000 \<or> (t = 8000 \<and> rf) then r else fallback_text fmt d x
           | _ \<Rightarrow> fallback_text fmt d x))"
  by (auto simp: ai_text_def race_def interpretVitals_def deadline_ms_def
      split: ai_call.splits backend_reply.splits bool.splits)

lemma fallback_text_status:
  "startsWith (fallback_text fmt d x)
     (''### REPORT_STATUS: '' @ (if 100 < js_round x then ''ELEVATED'' else ''STABLE'')
        @ [CHR 0x0A])"
  by (simp add: fallback_text_def Let_def report_status_def startsWith_def)

lemma fallback_text_bpm: "includes_str (fallback_text fmt d x) (bpm_token fmt (js_round x))"
  unfolding fallback_text_def Let_def
  using includes_str_append [of
      "''### REPORT_STATUS: '' @ report_status (js_round x) @ [CHR 0x0A, CHR 0x0A]
      @ ''**Summary:** Signals processed via local engine fallback.'' @ [CHR 0x0A, CHR 0x0A]
      @ ''**Clinical Findings:**'' @ [CHR 0x0A] @ ''* ''"
      "bpm_token fmt (js_round x)"]
  by simp

lemma processRecording_no_error:
  assumes "\<not> isProcessing c" and "isMounted s" and "simulationMode c \<or> concat chunks \<noteq> []"
    and "analyzeVideo e = Inr (Some d)" and "heart_rate d = Some x"
    and "saveScanResult e = Inr saved"
  shows "error (fst (processRecording c e chunks s)) = None"
  using assms
  by (auto simp: processRecording_def analysis_def extraction_def Let_def settled_def
      split: sum.splits)

text \<open>
  C2. For a response with the heart rate \<open>x\<close>, the interpretation text is the remote
  service's text or the local fallback text. It is the fallback text when the remote
  call never settles, when it settles later than 8000 ms, and when it is rejected at
  any time; it is the remote text when the call is fulfilled before 8000 ms. The
  fallback text begins with the status line, \<open>ELEVATED\<close> if the rounded heart rate is
  greater than 100 and \<open>STABLE\<close> otherwise, and contains the token \<open>[BPM: n]\<close> where \<open>n\<close>
  is the rounded heart rate as the host prints it (its decimal digits up to \<open>2^53\<close>).
  A session that got such a response and whose result is stored ends without an
  error, with that text as its interpretation.
\<close>

theorem interpretation_falls_back:
  "(ai_text fmt rf call d x = fallback_text fmt d x
      \<or> (\<exists>t r. call = Settles t (Reply True r) \<and> t \<le> 8000 \<and> ai_text fmt rf call d x = r))
   \<and> (call = NeverSettles \<longrightarrow> ai_text fmt rf call d x = fallback_text fmt d x)
   \<and> (\<forall>t reply. call = Settles t reply \<and> 8000 < t \<longrightarrow>
         ai_text fmt rf call d x = fallback_text fmt d x)
   \<and> (\<forall>t reply m. call = Settles t reply \<and> interpretVitals reply = Inl m \<longrightarrow>
         ai_text fmt rf call d x = fallback_text fmt d x)
   \<and> (\<forall>t r. call = Settles t (Reply True r) \<and> t < 8000 \<longrightarrow> ai_text fmt rf call d x = r)
   \<and> startsWith (fallback_text fmt d x)
        (''### REPORT_STATUS: '' @ (if 100 < js_round x then ''ELEVATED'' else ''STABLE'')
           @ [CHR 0x0A])
   \<and> includes_str (fallback_text fmt d x)
        (''[BPM: '' @ number_str fmt (of_int (js_round x)) @ '']'')
   \<and> (\<bar>js_round x\<bar> \<le> 9007199254740992 \<longrightarrow>
         number_str fmt (of_int (js_round x)) = int_str (js_round x))
   \<and> (\<not> isProcessing c \<and> isMounted s \<and> (simulationMode c \<or> concat chunks \<noteq> [])
        \<and> analyzeVideo e = Inr (Some d) \<and> heart_rate d = Some x
        \<and> saveScanResult e = Inr saved \<longrightarrow>
          error (fst (processRecording c e chunks s)) = None
          \<and> map_option aiInterpretation (result (fst (processRecording c e chunks s)))
            = Some (ai_text (number_fmt e) (remote_first e) (remote_call e) d x))"
proof (intro conjI)
  show "ai_text fmt rf call d x = fallback_text fmt d x
      \<or> (\<exists>t r. call = Settles t (Reply True r) \<and> t \<le> 8000 \<and> ai_text fmt rf call d x = r)"
    by (auto simp: ai_text_cases split: ai_call.splits backend_reply.splits bool.splits)
  show "call = NeverSettles \<longrightarrow> ai_text fmt rf call d x = fallback_text fmt d x"
    by (simp add: ai_text_cases)
  show "\<forall>t reply. call = Settles t reply \<and> 8000 < t \<longrightarrow>
      ai_text fmt rf call d x = fallback_text fmt d x"
    by (auto simp: ai_text_cases split: backend_reply.splits bool.splits)
  show "\<forall>t reply m. call = Settles t reply \<and> interpretVitals reply = Inl m \<longrightarrow>
      ai_text fmt rf call d x = fallback_text fmt d x"
    by (auto simp: ai_text_cases interpretVitals_def split: backend_reply.splits bool.splits)
  show "\<forall>t r. call = Settles t (Reply True r) \<and> t < 8000 \<longrightarrow> ai_text fmt rf call d x = r"
    by (simp add: ai_text_cases)
  show "startsWith (fallback_text fmt d x)
      (''### REPORT_STATUS: '' @ (if 100 < js_round x then ''ELEVATED'' else ''STABLE'')
         @ [CHR 0x0A])"
    by (rule fallback_text_status)
  show "includes_str (fallback_text fmt d x)
      (''[BPM: '' @ number_str fmt (of_int (js_round x)) @ '']'')"
    using fallback_text_bpm [of fmt d x] by (simp add: bpm_token_def)
  show "\<bar>js_round x\<bar> \<le> 9007199254740992 \<longrightarrow>
      number_str fmt (of_int (js_round x)) = int_str (js_round x)"
  proof
    assume "\<bar>js_round x\<bar> \<le> 9007199254740992"
    then have "\<bar>real_of_int (js_round x)\<bar> \<le> 9007199254740992"
      by linarith
    then show "number_str fmt (of_int (js_round x)) = int_str (js_round x)"
      by (simp add: number_str_def)
  qed
  show "\<not> isProcessing c \<and> isMounted s \<and> (simulationMode c \<or> concat chunks \<noteq> [])
      \<and> analyzeVideo e = Inr (Some d) \<and> heart_rate d = Some x
      \<and> saveScanResult e = Inr saved \<longrightarrow>
        error (fst (processRecording c e chunks s)) = None
        \<and> map_option aiInterpretation (result (fst (processRecording c e chunks s)))
          = Some (ai_text (number_fmt e) (remote_first e) (remote_call e) d x)"
    by (auto simp: processRecording_scan processRecording_no_error scan_result_def)
qed

theorem interpretation_falls_back_witness:
  "ai_text (\<lambda>x. []) False (Settles 8001 (Reply True ''remote'')) sample_response 100.5
     = ''### REPORT_STATUS: ELEVATED'' @ [CHR 0x0A, CHR 0x0A]
       @ ''**Summary:** Signals processed via local engine fallback.'' @ [CHR 0x0A, CHR 0x0A]
       @ ''**Clinical Findings:**'' @ [CHR 0x0A]
       @ ''* [BPM: 101] - Normal rhythm detected.'' @ [CHR 0x0A]
       @ ''* [BP: 120/80] - Estimated values.'' @ [CHR 0x0A, CHR 0x0A]
       @ ''**AI Verdict:** Data captured and stored in local history.''
   \<and> ai_text (\<lambda>x. []) False (Settles 120 (Reply True ''remote'')) sample_response 100.5
     = ''remote''
   \<and> ai_text (\<lambda>x. []) False (Settles 120 NoReply) sample_response 100.5
     = fallback_text (\<lambda>x. []) sample_response 100.5
   \<and> error (fst (processRecording (render True (mounted False)) sample_services []
        (mounted False))) = None
   \<and> map_option aiInterpretation
        (result (fst (processRecording (render True (mounted False)) sample_services []
           (mounted False))))
     = Some (fallback_text (\<lambda>x. []) sample_response 72.4)"
proof -
  have late: "ai_text (\<lambda>x. []) False (Settles 8001 (Reply True ''remote'')) sample_response 100.5
      = fallback_text (\<lambda>x. []) sample_response 100.5"
    and early: "ai_text (\<lambda>x. []) False (Settles 120 (Reply True ''remote'')) sample_response 100.5
      = ''remote''"
    and rejected: "ai_text (\<lambda>x. []) False (Settles 120 NoReply) sample_response 100.5
      = fallback_text (\<lambda>x. []) sample_response 100.5"
    using interpretation_falls_back [of "\<lambda>x. []" False "Settles 8001 (Reply True ''remote'')"
        sample_response "100.5"]
      interpretation_falls_back [of "\<lambda>x. []" False "Settles 120 (Reply True ''remote'')"
        sample_response "100.5"]
      interpretation_falls_back [of "\<lambda>x. []" False "Settles 120 NoReply"
        sample_response "100.5"]
    by (simp_all add: interpretVitals_def)
  have shown: "fallback_text (\<lambda>x. []) sample_response 100.5
     = ''### REPORT_STATUS: ELEVATED'' @ [CHR 0x0A, CHR 0x0A]
       @ ''**Summary:** Signals processed via local engine fallback.'' @ [CHR 0x0A, CHR 0x0A]
       @ ''**Clinical Findings:**'' @ [CHR 0x0A]
       @ ''* [BPM: 101] - Normal rhythm detected.'' @ [CHR 0x0A]
       @ ''* [BP: 120/80] - Estimated values.'' @ [CHR 0x0A, CHR 0x0A]
       @ ''**AI Verdict:** Data captured and stored in local history.''"
    by (simp add: fallback_text_def report_status_def bpm_token_def bp_token_def
        js_round_def sample_response_def or_else_def opt_systolic_def opt_diastolic_def num_eval)
  have stored: "error (fst (processRecording (render True (mounted False)) sample_services []
        (mounted False))) = None
   \<and> map_option aiInterpretation
        (result (fst (processRecording (render True (mounted False)) sample_services []
           (mounted False))))
     = Some (fallback_text (\<lambda>x. []) sample_response 72.4)"
    using interpretation_falls_back [of "\<lambda>x. []" False NeverSettles
      sample_response "72.4" "render True (mounted False)" "mounted False" "[]"
      sample_services True]
    by (auto simp add: render_def mounted_def sample_services_def sample_response_def)
  from late early rejected shown stored show ?thesis by simp
qed

section \<open>Starting and stopping a session\<close>

lemma stopRecording_stale: "\<not> isRecording c \<Longrightarrow> stopRecording c e s = (s, [])"
  by (simp add: stopRecording_def)

lemma tick_stale:
  "\<not> isRecording (bound iv) \<Longrightarrow>
   tick iv e now s = (s\<lparr>recordingTime := (now - startTime iv) div 1000\<rparr>, [])"
  by (simp add: tick_def Let_def stopRecording_stale)

lemma startRecording_interval:
  assumes "(t, iv) \<in> set (intervals (startRecording c e now s))"
    and "(t, iv) \<notin> set (intervals s)"
  shows "iv = \<lparr>startTime = now, bound = c\<rparr> \<and> \<not> isRecording c \<and> \<not> isProcessing c"
  using assms
  by (auto simp: startRecording_def Let_def clearInterval_def split: if_splits)

lemma timer_callback_is_stale:
  assumes "(t, iv) \<in> set (intervals (startRecording c e now s))"
    and "(t, iv) \<notin> set (intervals s)"
  shows "tick iv e' now' s' = (s'\<lparr>recordingTime := (now' - now) div 1000\<rparr>, [])"
proof -
  from assms have "iv = \<lparr>startTime = now, bound = c\<rparr>" and "\<not> isRecording c"
    using startRecording_interval by blast+
  then show ?thesis by (simp add: tick_stale)
qed

text \<open>
  C8. The start button runs the \<open>startRecording\<close> of the current render, whose scope is
  the current state. In a state that is recording or processing it changes nothing;
  whenever it changes the state, the state was neither recording nor processing, and
  then recording begins unless the recording engine fails. \<open>processRecording\<close> of the
  current render does nothing either while the state is processing.
\<close>

theorem start_is_guarded:
  "(recording s \<or> processing s \<longrightarrow> startRecording (render sim s) e now s = s)
   \<and> (startRecording (render sim s) e now s \<noteq> s \<longrightarrow> \<not> recording s \<and> \<not> processing s)
   \<and> (processing s \<longrightarrow> processRecording (render sim s) e chunks s = (s, []))
   \<and> (\<not> recording s \<and> \<not> processing s \<longrightarrow>
        recording (startRecording (render sim s) e now s)
        \<or> error (startRecording (render sim s) e now s)
            = Some ''Recording engine failed. Please try Simulation Mode.'')"
  by (auto simp: startRecording_def processRecording_def render_def Let_def)

theorem start_is_guarded_witness:
  "startRecording (render True ((mounted False)\<lparr>recording := True\<rparr>)) sample_services 5000
     ((mounted False)\<lparr>recording := True\<rparr>) = (mounted False)\<lparr>recording := True\<rparr>
   \<and> startRecording (render True ((mounted False)\<lparr>processing := True\<rparr>)) sample_services 5000
     ((mounted False)\<lparr>processing := True\<rparr>) = (mounted False)\<lparr>processing := True\<rparr>
   \<and> processRecording (render True ((mounted False)\<lparr>processing := True\<rparr>)) sample_services []
     ((mounted False)\<lparr>processing := True\<rparr>) = ((mounted False)\<lparr>processing := True\<rparr>, [])
   \<and> recording (startRecording (render True (mounted False)) sample_services 5000 (mounted False))"
  using start_is_guarded [of "(mounted False)\<lparr>recording := True\<rparr>" True sample_services 5000 "[]"]
    start_is_guarded [of "(mounted False)\<lparr>processing := True\<rparr>" True sample_services 5000 "[]"]
    start_is_guarded [of "mounted False" True sample_services 5000 "[]"]
  by (simp add: mounted_def startRecording_def render_def Let_def)

text \<open>
  C3. The interval's callback calls the \<open>stopRecording\<close> of the render in which
  \<open>startRecording\<close> ran, and \<open>startRecording\<close> goes on only when that render's
  \<open>isRecording\<close> is false; so this \<open>stopRecording\<close> returns at its first line, at
  every tick (\<open>timer_callback_is_stale\<close>). On the freshly mounted component, started
  at time 0, the tick at 15000 ms sets the shown time to 15 and changes nothing else:
  the component is still recording, the interval is still registered, nothing is
  processed; the tick at 16000 ms sets the shown time to 16. In live mode the recorder
  is still active after the tick at 15000 ms.
\<close>

theorem timer_does_not_stop_recording:
  "recording (startRecording (render True (mounted False)) sample_services 0 (mounted False))
   \<and> interval_fires 1 sample_services 15000
       (startRecording (render True (mounted False)) sample_services 0 (mounted False))
     = ((startRecording (render True (mounted False)) sample_services 0 (mounted False))
          \<lparr>recordingTime := 15\<rparr>, [])
   \<and> interval_fires 1 sample_services 16000
       ((startRecording (render True (mounted False)) sample_services 0 (mounted False))
          \<lparr>recordingTime := 15\<rparr>)
     = ((startRecording (render True (mounted False)) sample_services 0 (mounted False))
          \<lparr>recordingTime := 16\<rparr>, [])
   \<and> interval_fires 1 sample_services 15000
       (startRecording (render False (mounted True)) sample_services 0 (mounted True))
     = ((startRecording (render False (mounted True)) sample_services 0 (mounted True))
          \<lparr>recordingTime := 15\<rparr>, [])
   \<and> map_option active (mediaRecorderRef
        (startRecording (render False (mounted True)) sample_services 0 (mounted True)))
     = Some True"
  by (simp add: startRecording_def render_def mounted_def sample_services_def Let_def
      interval_fires_def tick_def stopRecording_def)

section \<open>The report parser\<close>

lemma trim_empty_iff: "trim s = [] \<longleftrightarrow> list_all is_space s"
proof
  assume "trim s = []"
  then have a: "\<forall>c \<in> set (dropWhile is_space s). is_space c"
    by (simp add: trim_def dropWhile_eq_Nil_conv)
  have "dropWhile is_space s = []"
  proof (rule ccontr)
    assume n: "dropWhile is_space s \<noteq> []"
    then have "\<not> is_space (hd (dropWhile is_space s))" by (rule hd_dropWhile)
    moreover from n have "hd (dropWhile is_space s) \<in> set (dropWhile is_space s)" by simp
    ultimately show False using a by blast
  qed
  then show "list_all is_space s"
    by (simp add: dropWhile_eq_Nil_conv list_all_iff)
next
  assume "list_all is_space s"
  then have "dropWhile is_space s = []"
    by (simp add: dropWhile_eq_Nil_conv list_all_iff)
  then show "trim s = []"
    unfolding trim_def by (simp only: rev.simps dropWhile.simps)
qed

lemma startsWith_set: "startsWith s p \<Longrightarrow> set p \<subseteq> set s"
  by (auto simp: startsWith_iff)

lemma blank_has_no_mark:
  assumes "blank line"
  shows "\<not> startsWith line ''###''" and "\<not> has_metric_token line"
    and "\<not> startsWith line ''**AI Verdict:**''" and "\<not> startsWith line ''**''"
proof -
  from assms have sp: "\<forall>c \<in> set line. is_space c"
    by (simp add: blank_def trim_empty_iff list_all_iff)
  have ns: "\<not> is_space CHR ''#''" "\<not> is_space CHR ''[''" "\<not> is_space CHR ''*''"
    by (simp_all add: is_space_def)
  show "\<not> startsWith line ''###''"
    using sp ns startsWith_set [of line "''###''"] by auto
  show "\<not> has_metric_token line"
    using sp ns includes_str_set [of line "''[BPM:''"] includes_str_set [of line "''[BP:''"]
      includes_str_set [of line "''[HRV:''"]
    by (auto simp: has_metric_token_def)
  show "\<not> startsWith line ''**AI Verdict:**''"
    using sp ns startsWith_set [of line "''**AI Verdict:**''"] by auto
  show "\<not> startsWith line ''**''"
    using sp ns startsWith_set [of line "''**''"] by auto
qed

lemma render_line_None: "(render_line line = None) = blank line"
proof (cases "blank line")
  case True
  with blank_has_no_mark [OF True] show ?thesis
    by (simp add: render_line_def blank_def)
next
  case False
  then show ?thesis by (simp add: render_line_def blank_def)
qed

lemma map_Some_map_filter: "map Some (List.map_filter (\<lambda>b. b) xs) = filter (\<lambda>b. b \<noteq> None) xs"
  by (induction xs) (auto simp: List.map_filter_simps split: option.splits)

lemma blocks_lines:
  "map Some (blocks text) =
     map render_line (filter (\<lambda>l. \<not> blank l) (split_on (CHR 0x0A) text))"
proof (cases "text = []")
  case True
  then show ?thesis
    by (simp add: blocks_def renderClinicalReport_def blank_def trim_def)
next
  case False
  then have "map Some (blocks text) =
      filter (\<lambda>b. b \<noteq> None) (map render_line (split_on (CHR 0x0A) text))"
    by (simp add: blocks_def renderClinicalReport_def map_Some_map_filter)
  also have "\<dots> = map render_line
      (filter (\<lambda>l. render_line l \<noteq> None) (split_on (CHR 0x0A) text))"
    by (simp add: filter_map comp_def)
  finally show ?thesis by (simp add: render_line_None)
qed

text \<open>
  C4. The blocks shown for a report text are the renderings of its lines that are not
  blank, in the order of the lines: one block for each such line and none for a blank
  line (a line is blank when nothing is left of it after trimming). The kind of a
  line's block is decided by the first test that succeeds, in this order: a line that
  starts with \<open>###\<close> is a status banner, whatever else it contains; otherwise a line
  with one of the tokens \<open>[BPM:\<close>, \<open>[BP:\<close>, \<open>[HRV:\<close> is a finding line; otherwise a line
  that starts with \<open>**AI Verdict:**\<close> is a verdict; otherwise a line that starts with
  \<open>**\<close> is a heading; otherwise a line that is not blank is a plain line.
\<close>

theorem one_block_per_line:
  "map Some (blocks text)
     = map render_line (filter (\<lambda>l. \<not> blank l) (split_on (CHR 0x0A) text))
   \<and> length (blocks text) = length (filter (\<lambda>l. \<not> blank l) (split_on (CHR 0x0A) text))
   \<and> (render_line line = None) = blank line
   \<and> (startsWith line ''###'' \<longrightarrow> (\<exists>status color. render_line line = Some (StatusBanner status color)))
   \<and> (\<not> startsWith line ''###'' \<and> has_metric_token line \<longrightarrow>
        (\<exists>segments. render_line line = Some (FindingLine segments)))
   \<and> (\<not> startsWith line ''###'' \<and> \<not> has_metric_token line
        \<and> startsWith line ''**AI Verdict:**'' \<longrightarrow>
        (\<exists>t. render_line line = Some (VerdictBlock t)))
   \<and> (\<not> startsWith line ''###'' \<and> \<not> has_metric_token line
        \<and> \<not> startsWith line ''**AI Verdict:**'' \<and> startsWith line ''**'' \<longrightarrow>
        (\<exists>t. render_line line = Some (Heading t)))
   \<and> (\<not> startsWith line ''###'' \<and> \<not> has_metric_token line
        \<and> \<not> startsWith line ''**AI Verdict:**'' \<and> \<not> startsWith line ''**''
        \<and> \<not> blank line \<longrightarrow>
        (\<exists>t. render_line line = Some (PlainLine t)))"
proof -
  have "length (map Some (blocks text)) =
      length (map render_line (filter (\<lambda>l. \<not> blank l) (split_on (CHR 0x0A) text)))"
    by (simp only: blocks_lines)
  then have "length (blocks text) = length (filter (\<lambda>l. \<not> blank l) (split_on (CHR 0x0A) text))"
    by simp
  then show ?thesis
    by (simp add: blocks_lines render_line_None) (simp add: render_line_def blank_def)
qed

theorem one_block_per_line_witness:
  "blocks sample_report =
     [StatusBanner ''STABLE'' positive_class,
      Heading ''Summary: ok'',
      FindingLine [PlainText '' '', MetricTag HR '' 72'', PlainText '' - Normal rhythm''],
      VerdictBlock ''done'',
      PlainLine ''plain text'']
   \<and> length (split_on (CHR 0x0A) sample_report) = 7
   \<and> render_line ''### [BPM: 1]'' = Some (StatusBanner ''[BPM: 1]'' negative_class)
   \<and> render_line ''**AI Verdict:** [BP: 1/2]''
     = Some (FindingLine [PlainText ''AI Verdict: '', MetricTag BP '' 1/2'', PlainText []])"
proof -
  have rendered: "map render_line (filter (\<lambda>l. \<not> blank l) (split_on (CHR 0x0A) sample_report)) =
      map Some
       [StatusBanner ''STABLE'' positive_class, Heading ''Summary: ok'',
        FindingLine [PlainText '' '', MetricTag HR '' 72'', PlainText '' - Normal rhythm''],
        VerdictBlock ''done'', PlainLine ''plain text'']"
    by code_simp
  have lines: "length (split_on (CHR 0x0A) sample_report) = 7"
    by code_simp
  have banner: "render_line ''### [BPM: 1]'' = Some (StatusBanner ''[BPM: 1]'' negative_class)"
    by code_simp
  have finding: "render_line ''**AI Verdict:** [BP: 1/2]''
     = Some (FindingLine [PlainText ''AI Verdict: '', MetricTag BP '' 1/2'', PlainText []])"
    by code_simp
  from one_block_per_line [of sample_report "''### [BPM: 1]''"]
  have "map Some (blocks sample_report) =
      map render_line (filter (\<lambda>l. \<not> blank l) (split_on (CHR 0x0A) sample_report))"
    by (rule conjunct1)
  then have "blocks sample_report =
     [StatusBanner ''STABLE'' positive_class, Heading ''Summary: ok'',
      FindingLine [PlainText '' '', MetricTag HR '' 72'', PlainText '' - Normal rhythm''],
      VerdictBlock ''done'', PlainLine ''plain text'']"
    unfolding rendered by (simp only: inj_map_eq_map inj_Some)
  with lines banner finding show ?thesis by (simp only: simp_thms)
qed

text \<open>
  C7. The line \<open>### REPORT_STATUS: STABLE\<close> is rendered as the status banner \<open>STABLE\<close>
  with the positive class. Every line that starts with \<open>###\<close> is rendered as a status
  banner; its status is what is left of the line when every \<open>###\<close> and
  \<open>REPORT_STATUS:\<close> is deleted and the rest is trimmed, and its severity is positive
  if the status contains \<open>OPTIMAL\<close> or \<open>STABLE\<close> and negative otherwise.
\<close>

theorem status_banner_severity:
  "render_line ''### REPORT_STATUS: STABLE'' = Some (StatusBanner ''STABLE'' positive_class)
   \<and> severityClass positive_class = ''positive''
   \<and> (startsWith line ''###'' \<longrightarrow>
        render_line line = Some (StatusBanner (status_of line) (color_of (status_of line)))
        \<and> severityClass (color_of (status_of line))
          = (if includes_str (status_of line) ''OPTIMAL'' \<or> includes_str (status_of line) ''STABLE''
             then ''positive'' else ''negative''))"
proof (intro conjI)
  show "render_line ''### REPORT_STATUS: STABLE'' = Some (StatusBanner ''STABLE'' positive_class)"
    by (simp add: render_line_def startsWith_def status_of_def color_of_def trim_def is_space_def)
  show "severityClass positive_class = ''positive''"
    by (simp add: severityClass_def)
  show "startsWith line ''###'' \<longrightarrow>
        render_line line = Some (StatusBanner (status_of line) (color_of (status_of line)))
        \<and> severityClass (color_of (status_of line))
          = (if includes_str (status_of line) ''OPTIMAL'' \<or> includes_str (status_of line) ''STABLE''
             then ''positive'' else ''negative'')"
    by (simp add: render_line_def color_of_def severityClass_def positive_class_def
        negative_class_def)
qed

theorem status_banner_severity_witness:
  "render_line ''### REPORT_STATUS: ELEVATED'' = Some (StatusBanner ''ELEVATED'' negative_class)
   \<and> severityClass negative_class = ''negative''
   \<and> render_line ''### ATTENTION'' = Some (StatusBanner ''ATTENTION'' negative_class)
   \<and> render_line ''###REPORT_STATUS: OPTIMAL '' = Some (StatusBanner ''OPTIMAL'' positive_class)"
proof -
  have s1: "status_of ''### REPORT_STATUS: ELEVATED'' = ''ELEVATED''"
    and s2: "status_of ''### ATTENTION'' = ''ATTENTION''"
    and s3: "status_of ''###REPORT_STATUS: OPTIMAL '' = ''OPTIMAL''"
    by code_simp+
  have c1: "color_of ''ELEVATED'' = negative_class"
    and c2: "color_of ''ATTENTION'' = negative_class"
    and c3: "color_of ''OPTIMAL'' = positive_class"
    by code_simp+
  have p: "startsWith ''### REPORT_STATUS: ELEVATED'' ''###''"
    "startsWith ''### ATTENTION'' ''###''" "startsWith ''###REPORT_STATUS: OPTIMAL '' ''###''"
    by code_simp+
  have "severityClass negative_class = ''negative''"
    by code_simp
  with status_banner_severity [of "''### REPORT_STATUS: ELEVATED''"]
    status_banner_severity [of "''### ATTENTION''"]
    status_banner_severity [of "''###REPORT_STATUS: OPTIMAL ''"]
    p
  show ?thesis
    by (simp only: s1 s2 s3 c1 c2 c3 simp_thms)
qed

lemma bracket_match_closed:
  assumes "CHR '']'' \<notin> set body" and "\<not> list_ex line_terminator body"
  shows "bracket_match (body @ CHR '']'' # post) = Some (body, post)"
proof -
  have "takeWhile (\<lambda>c. c \<noteq> CHR '']'') (body @ CHR '']'' # post) = body"
    using assms(1) by (induction body) auto
  moreover have "dropWhile (\<lambda>c. c \<noteq> CHR '']'') (body @ CHR '']'' # post) = CHR '']'' # post"
    using assms(1) by (induction body) auto
  ultimately show ?thesis
    using assms(2) by (simp add: bracket_match_def)
qed

lemma split_brackets_token:
  assumes "CHR ''['' \<notin> set pre" and "CHR '']'' \<notin> set body"
    and "\<not> list_ex line_terminator body"
  shows "split_brackets acc (pre @ CHR ''['' # body @ CHR '']'' # post) =
    (rev acc @ pre) # (CHR ''['' # body @ '']'') # split_brackets [] post"
  using assms(1)
proof (induction pre arbitrary: acc)
  case Nil
  then show ?case
    by (simp add: bracket_match_closed [OF assms(2,3)])
next
  case (Cons c pre)
  then have "c \<noteq> CHR ''[''" and "CHR ''['' \<notin> set pre" by auto
  with Cons.IH [of "c # acc"] show ?case by simp
qed

lemma remove_first_last: "c \<notin> set v \<Longrightarrow> remove_first [c] (v @ [c]) = v"
  by (induction v) (auto simp: startsWith_def)

lemma render_part_plain:
  "CHR ''['' \<notin> set pre \<Longrightarrow> render_part pre = PlainText (filter (\<lambda>c. c \<noteq> CHR ''*'') pre)"
  by (cases pre) (auto simp: render_part_def startsWith_def)

lemma render_part_token:
  assumes "(name, kind) \<in> set [(''BPM'', HR), (''BP'', BP), (''HRV'', HRV)]"
    and "CHR '']'' \<notin> set v"
  shows "render_part (CHR ''['' # name @ '':'' @ v @ '']'') = MetricTag kind v"
  using assms remove_first_last [of "CHR '']''" v]
  by (auto simp: render_part_def startsWith_def)

lemma split_brackets_plain: "CHR ''['' \<notin> set post \<Longrightarrow> split_brackets acc post = [rev acc @ post]"
  by (induction post arbitrary: acc) auto

lemma split_brackets_pieces:
  assumes "list_all (\<lambda>(t, b). CHR ''['' \<notin> set t \<and> CHR '']'' \<notin> set b
      \<and> \<not> list_ex line_terminator b) toks"
  shows "split_brackets [] (concat (map (\<lambda>(t, b). t @ ''['' @ b @ '']'') toks) @ post) =
    concat (map (\<lambda>(t, b). [t, ''['' @ b @ '']'']) toks) @ split_brackets [] post"
  using assms
proof (induction toks)
  case Nil
  then show ?case by simp
next
  case (Cons p toks)
  obtain t b where p: "p = (t, b)" by (cases p)
  from Cons.prems p have h: "CHR ''['' \<notin> set t" "CHR '']'' \<notin> set b"
      "\<not> list_ex line_terminator b"
    and rest: "list_all (\<lambda>(t, b). CHR ''['' \<notin> set t \<and> CHR '']'' \<notin> set b
      \<and> \<not> list_ex line_terminator b) toks"
    by auto
  from split_brackets_token [OF h, of "[]"
      "concat (map (\<lambda>(t, b). t @ ''['' @ b @ '']'') toks) @ post"]
    Cons.IH [OF rest] p
  show ?case by simp
qed

lemma render_pieces:
  assumes "list_all (\<lambda>(t, b). CHR ''['' \<notin> set t \<and> CHR '']'' \<notin> set b
      \<and> \<not> list_ex line_terminator b) toks"
  shows "map render_part (concat (map (\<lambda>(t, b). [t, ''['' @ b @ '']'']) toks)) =
    concat (map (\<lambda>(t, b). [PlainText (filter (\<lambda>c. c \<noteq> CHR ''*'') t),
      render_part (''['' @ b @ '']'')]) toks)"
  using assms
  by (induction toks) (auto simp: render_part_plain)

lemma startsWith_bracket:
  assumes "CHR '']'' \<notin> set p"
  shows "startsWith (CHR ''['' # b @ '']'') (CHR ''['' # p) = startsWith b p"
proof
  assume "startsWith (CHR ''['' # b @ '']'') (CHR ''['' # p)"
  then obtain c where c: "b @ '']'' = p @ c"
    by (auto simp: startsWith_iff)
  show "startsWith b p"
  proof (cases c rule: rev_cases)
    case Nil
    with c assms show ?thesis by (cases p rule: rev_cases) auto
  next
    case (snoc c' x)
    with c have "b = p @ c'" by simp
    then show ?thesis by (auto simp: startsWith_iff)
  qed
next
  assume "startsWith b p"
  then show "startsWith (CHR ''['' # b @ '']'') (CHR ''['' # p)"
    by (auto simp: startsWith_iff)
qed

lemma render_part_other:
  assumes "\<not> startsWith b ''BPM:''" and "\<not> startsWith b ''BP:''" and "\<not> startsWith b ''HRV:''"
  shows "render_part (''['' @ b @ '']'') = PlainText (filter (\<lambda>c. c \<noteq> CHR ''*'') (''['' @ b @ '']''))"
proof -
  have "\<not> startsWith (CHR ''['' # b @ '']'') (CHR ''['' # ''BPM:'')"
    "\<not> startsWith (CHR ''['' # b @ '']'') (CHR ''['' # ''BP:'')"
    "\<not> startsWith (CHR ''['' # b @ '']'') (CHR ''['' # ''HRV:'')"
    using assms by (simp_all add: startsWith_bracket)
  then show ?thesis by (simp add: render_part_def)
qed

text \<open>
  C6. The line \<open>* [BPM: 72] - Normal rhythm\<close> is rendered as a finding line with the
  segments plain text \<open>" "\<close>, metric tag \<open>HR\<close> with the value \<open>" 72"\<close>, and plain text
  \<open>" - Normal rhythm"\<close>: the value is the text between the colon and the closing
  bracket as it stands, the blank behind the colon included.

  In general, take a line that does not start with \<open>###\<close> and contains one of
  \<open>[BPM:\<close>, \<open>[BP:\<close>, \<open>[HRV:\<close>, and let it begin with texts free of opening brackets, each
  followed by a bracketed piece: an opening bracket, a content free of closing brackets
  and line terminators, and a closing bracket. The line is a finding line. Its
  segments are, in the order of the line, one for each of these texts and one for each
  of these pieces, and behind them the segments of the rest of the line. A text
  becomes plain text without its asterisks, and so does a rest that has no opening
  bracket. A bracketed piece with the content \<open>BPM:v\<close>, \<open>BP:v\<close> or \<open>HRV:v\<close> becomes a
  metric tag of the kind \<open>HR\<close>, \<open>BP\<close> or \<open>HRV\<close> with the value \<open>v\<close>. A bracketed piece
  whose content begins otherwise becomes plain text without its asterisks, also when
  a token stands inside it, as in \<open>[x [BPM: 7]\<close>.
\<close>

theorem finding_line_segments:
  "(line = concat (map (\<lambda>(t, b). t @ ''['' @ b @ '']'') toks) @ post
      \<and> list_all (\<lambda>(t, b). CHR ''['' \<notin> set t \<and> CHR '']'' \<notin> set b
            \<and> \<not> list_ex line_terminator b) toks
      \<and> \<not> startsWith line ''###'' \<and> has_metric_token line \<longrightarrow>
      render_line line = Some (FindingLine
        (concat (map (\<lambda>(t, b). [PlainText (filter (\<lambda>c. c \<noteq> CHR ''*'') t),
            render_part (''['' @ b @ '']'')]) toks)
         @ map render_part (split_brackets [] post))))
   \<and> (CHR ''['' \<notin> set post \<longrightarrow>
        map render_part (split_brackets [] post)
          = [PlainText (filter (\<lambda>c. c \<noteq> CHR ''*'') post)])
   \<and> ((name, kind) \<in> set [(''BPM'', HR), (''BP'', BP), (''HRV'', HRV)]
        \<and> CHR '']'' \<notin> set v \<longrightarrow>
        render_part (''['' @ name @ '':'' @ v @ '']'') = MetricTag kind v)
   \<and> (\<not> startsWith b ''BPM:'' \<and> \<not> startsWith b ''BP:'' \<and> \<not> startsWith b ''HRV:'' \<longrightarrow>
        render_part (''['' @ b @ '']'')
          = PlainText (filter (\<lambda>c. c \<noteq> CHR ''*'') (''['' @ b @ '']'')))
   \<and> render_line ''* [BPM: 72] - Normal rhythm''
      = Some (FindingLine
          [PlainText '' '', MetricTag HR '' 72'', PlainText '' - Normal rhythm''])"
proof (intro conjI impI)
  assume h: "line = concat (map (\<lambda>(t, b). t @ ''['' @ b @ '']'') toks) @ post
      \<and> list_all (\<lambda>(t, b). CHR ''['' \<notin> set t \<and> CHR '']'' \<notin> set b
            \<and> \<not> list_ex line_terminator b) toks
      \<and> \<not> startsWith line ''###'' \<and> has_metric_token line"
  then have pieces: "list_all (\<lambda>(t, b). CHR ''['' \<notin> set t \<and> CHR '']'' \<notin> set b
            \<and> \<not> list_ex line_terminator b) toks"
    by blast
  from h have shape: "line = concat (map (\<lambda>(t, b). t @ ''['' @ b @ '']'') toks) @ post"
    and finding: "\<not> startsWith line ''###''" "has_metric_token line"
    by blast+
  from finding
  have "render_line line = Some (FindingLine (map render_part (split_brackets [] line)))"
    by (simp add: render_line_def)
  moreover have "split_brackets [] line =
      concat (map (\<lambda>(t, b). [t, ''['' @ b @ '']'']) toks) @ split_brackets [] post"
    unfolding shape by (rule split_brackets_pieces [OF pieces])
  ultimately show "render_line line = Some (FindingLine
        (concat (map (\<lambda>(t, b). [PlainText (filter (\<lambda>c. c \<noteq> CHR ''*'') t),
            render_part (''['' @ b @ '']'')]) toks)
         @ map render_part (split_brackets [] post)))"
    using render_pieces [OF pieces] by simp
next
  assume "CHR ''['' \<notin> set post"
  then show "map render_part (split_brackets [] post)
          = [PlainText (filter (\<lambda>c. c \<noteq> CHR ''*'') post)]"
    by (simp add: split_brackets_plain render_part_plain)
next
  assume "(name, kind) \<in> set [(''BPM'', HR), (''BP'', BP), (''HRV'', HRV)]
        \<and> CHR '']'' \<notin> set v"
  then show "render_part (''['' @ name @ '':'' @ v @ '']'') = MetricTag kind v"
    using render_part_token [of name kind v] by simp
next
  assume "\<not> startsWith b ''BPM:'' \<and> \<not> startsWith b ''BP:'' \<and> \<not> startsWith b ''HRV:''"
  then have "\<not> startsWith b ''BPM:''" "\<not> startsWith b ''BP:''" "\<not> startsWith b ''HRV:''"
    by blast+
  then show "render_part (''['' @ b @ '']'')
          = PlainText (filter (\<lambda>c. c \<noteq> CHR ''*'') (''['' @ b @ '']''))"
    by (rule render_part_other)
next
  show "render_line ''* [BPM: 72] - Normal rhythm''
      = Some (FindingLine
          [PlainText '' '', MetricTag HR '' 72'', PlainText '' - Normal rhythm''])"
    by code_simp
qed


theorem finding_line_segments_witness:
  "render_line ''**BP** [BP: 120/80] and [HRV:45]! [note*] [x [BPM: 7] end [''
     = Some (FindingLine
         [PlainText ''BP '', MetricTag BP '' 120/80'', PlainText '' and '',
          MetricTag HRV ''45'', PlainText ''! '', PlainText ''[note]'', PlainText '' '',
          PlainText ''[x [BPM: 7]'', PlainText '' end [''])
   \<and> render_part ''[BPM:[7]'' = MetricTag HR ''[7''"
proof -
  have shape: "''**BP** [BP: 120/80] and [HRV:45]! [note*] [x [BPM: 7] end [''
      = concat (map (\<lambda>(t, b). t @ ''['' @ b @ '']'')
          [(''**BP** '', ''BP: 120/80''), ('' and '', ''HRV:45''), (''! '', ''note*''),
           ('' '', ''x [BPM: 7'')]) @ '' end [''"
    by code_simp
  have pieces: "list_all (\<lambda>(t, b). CHR ''['' \<notin> set t \<and> CHR '']'' \<notin> set b
            \<and> \<not> list_ex line_terminator b)
          [(''**BP** '', ''BP: 120/80''), ('' and '', ''HRV:45''), (''! '', ''note*''),
           ('' '', ''x [BPM: 7'')]"
    by code_simp
  have finding: "\<not> startsWith ''**BP** [BP: 120/80] and [HRV:45]! [note*] [x [BPM: 7] end ['' ''###''"
    "has_metric_token ''**BP** [BP: 120/80] and [HRV:45]! [note*] [x [BPM: 7] end [''"
    by code_simp+
  have rendered: "concat (map (\<lambda>(t, b). [PlainText (filter (\<lambda>c. c \<noteq> CHR ''*'') t),
            render_part (''['' @ b @ '']'')])
          [(''**BP** '', ''BP: 120/80''), ('' and '', ''HRV:45''), (''! '', ''note*''),
           ('' '', ''x [BPM: 7'')])
         @ map render_part (split_brackets [] '' end ['')
      = [PlainText ''BP '', MetricTag BP '' 120/80'', PlainText '' and '',
          MetricTag HRV ''45'', PlainText ''! '', PlainText ''[note]'', PlainText '' '',
          PlainText ''[x [BPM: 7]'', PlainText '' end ['']"
    by code_simp
  have tag: "(''BPM'', HR) \<in> set [(''BPM'', HR), (''BP'', BP), (''HRV'', HRV)]
      \<and> CHR '']'' \<notin> set ''[7''"
    by simp
  note t = finding_line_segments [of
      "''**BP** [BP: 120/80] and [HRV:45]! [note*] [x [BPM: 7] end [''"
      "[(''**BP** '', ''BP: 120/80''), ('' and '', ''HRV:45''), (''! '', ''note*''),
        ('' '', ''x [BPM: 7'')]" "'' end [''" "''BPM''" HR "''[7''" "''note''"]
  from t shape pieces finding have "render_line ''**BP** [BP: 120/80] and [HRV:45]! [note*] [x [BPM: 7] end [''
      = Some (FindingLine
        (concat (map (\<lambda>(t, b). [PlainText (filter (\<lambda>c. c \<noteq> CHR ''*'') t),
            render_part (''['' @ b @ '']'')])
          [(''**BP** '', ''BP: 120/80''), ('' and '', ''HRV:45''), (''! '', ''note*''),
           ('' '', ''x [BPM: 7'')])
         @ map render_part (split_brackets [] '' end ['')))"
    by blast
  moreover from t tag have "render_part (''['' @ ''BPM'' @ '':'' @ ''[7'' @ '']'') = MetricTag HR ''[7''"
    by blast
  ultimately show ?thesis
    by (simp only: rendered) simp
qed

text \<open>
  The segments of the line \<open>* [BPM: 72] - Normal rhythm\<close> hold no metric tag with the
  value \<open>"72"\<close>; and the line \<open>a [x [BPM: 7] b\<close>, which contains a bracketed token, is
  rendered without a metric tag.
\<close>

theorem finding_value_keeps_space:
  "render_line ''* [BPM: 72] - Normal rhythm''
     = Some (FindingLine
         [PlainText '' '', MetricTag HR '' 72'', PlainText '' - Normal rhythm''])
   \<and> MetricTag HR ''72''
       \<notin> set [PlainText '' '', MetricTag HR '' 72'', PlainText '' - Normal rhythm'']
   \<and> render_line ''a [x [BPM: 7] b''
     = Some (FindingLine [PlainText ''a '', PlainText ''[x [BPM: 7]'', PlainText '' b''])"
  by code_simp

end
